theory Spec2Isabelle
  imports Complex_Main
begin

section \<open>The calculator module (src/calculator.py)\<close>

text \<open>
  The module has four free functions over two numbers and a class \<open>Calculator\<close>
  (the specification calls it the accumulator) that holds one number and mutates it.

  Numbers. The source annotates every number as \<open>float\<close> and computes with the
  operators \<open>+\<close>, \<open>-\<close>, \<open>*\<close>, \<open>/\<close> and the test \<open>== 0\<close> of the number type.
  The embedding is polymorphic in the number type \<open>'a\<close> and uses that type's own
  operators and zero, so a statement proved for every \<open>'a\<close> holds whatever the
  arithmetic is. Two number types are used below: \<open>real\<close>, the exact arithmetic, and
  \<open>double\<close>, the IEEE 754 binary64 arithmetic of Python's \<open>float\<close>.

  Errors. The only \<open>raise\<close> of the module is \<open>ValueError("Cannot divide by zero")\<close>;
  it is a value of the type \<open>py_error\<close>, carrying its message.
\<close>

datatype py_error = ValueError string

subsection \<open>Free functions\<close>

text \<open>\<^verbatim>\<open>def add(a, b): return a + b\<close>\<close>

definition add :: "'a::plus \<Rightarrow> 'a \<Rightarrow> 'a" where
  "add a b = a + b"

text \<open>\<^verbatim>\<open>def subtract(a, b): return a - b\<close>\<close>

definition subtract :: "'a::minus \<Rightarrow> 'a \<Rightarrow> 'a" where
  "subtract a b = a - b"

text \<open>\<^verbatim>\<open>def multiply(a, b): return a * b\<close>\<close>

definition multiply :: "'a::times \<Rightarrow> 'a \<Rightarrow> 'a" where
  "multiply a b = a * b"

text \<open>
  \<^verbatim>\<open>
  def divide(a, b):
      if b == 0:
          raise ValueError("Cannot divide by zero")
      return a / b
  \<close>
  The name \<open>divide\<close> is the division of HOL's rings, so the function is \<open>divide_py\<close>.
\<close>

definition divide_py :: "'a::{zero,inverse} \<Rightarrow> 'a \<Rightarrow> py_error + 'a" where
  "divide_py a b =
     (if b = 0 then Inl (ValueError ''Cannot divide by zero'') else Inr (a / b))"

subsection \<open>The class \<open>Calculator\<close>\<close>

text \<open>
  An instance has the one attribute \<open>value\<close>. Instances are mutable and the methods
  return \<open>self\<close>, so the model has an explicit store: a reference is an address, the
  store gives the object at every address, and a method takes the store and \<open>self\<close>
  and returns the store it leaves behind together with its outcome.
\<close>

record 'a Calculator =
  "value" :: 'a

type_synonym ref = nat

type_synonym 'a store = "ref \<Rightarrow> 'a Calculator"

text \<open>
  \<^verbatim>\<open>
  def __init__(self, initial_value=0.0):
      self.value = initial_value
  \<close>
  The optional argument is an \<open>option\<close>: \<open>None\<close> is the call without it.
\<close>

definition Calculator_init :: "'a::zero store \<Rightarrow> ref \<Rightarrow> 'a option \<Rightarrow> 'a store" where
  "Calculator_init s self initial_value =
     s(self := \<lparr>value = (case initial_value of None \<Rightarrow> 0 | Some v \<Rightarrow> v)\<rparr>)"

text \<open>\<^verbatim>\<open>def add(self, number): self.value += number; return self\<close>\<close>

definition Calculator_add :: "'a::plus store \<Rightarrow> ref \<Rightarrow> 'a \<Rightarrow> 'a store \<times> ref" where
  "Calculator_add s self number =
     (s(self := (s self)\<lparr>value := value (s self) + number\<rparr>), self)"

text \<open>\<^verbatim>\<open>def subtract(self, number): self.value -= number; return self\<close>\<close>

definition Calculator_subtract :: "'a::minus store \<Rightarrow> ref \<Rightarrow> 'a \<Rightarrow> 'a store \<times> ref" where
  "Calculator_subtract s self number =
     (s(self := (s self)\<lparr>value := value (s self) - number\<rparr>), self)"

text \<open>\<^verbatim>\<open>def multiply(self, number): self.value *= number; return self\<close>\<close>

definition Calculator_multiply :: "'a::times store \<Rightarrow> ref \<Rightarrow> 'a \<Rightarrow> 'a store \<times> ref" where
  "Calculator_multiply s self number =
     (s(self := (s self)\<lparr>value := value (s self) * number\<rparr>), self)"

text \<open>
  \<^verbatim>\<open>
  def divide(self, number):
      if number == 0:
          raise ValueError("Cannot divide by zero")
      self.value /= number
      return self
  \<close>
  A raise leaves a store behind as well, the one of the moment of the raise, so the
  result is the store paired with either the error or the returned reference.
\<close>

definition Calculator_divide ::
  "'a::{zero,inverse} store \<Rightarrow> ref \<Rightarrow> 'a \<Rightarrow> 'a store \<times> (py_error + ref)" where
  "Calculator_divide s self number =
     (if number = 0 then (s, Inl (ValueError ''Cannot divide by zero''))
      else (s(self := (s self)\<lparr>value := value (s self) / number\<rparr>), Inr self))"

text \<open>\<^verbatim>\<open>def reset(self): self.value = 0.0; return self\<close>\<close>

definition Calculator_reset :: "'a::zero store \<Rightarrow> ref \<Rightarrow> 'a store \<times> ref" where
  "Calculator_reset s self = (s(self := (s self)\<lparr>value := 0\<rparr>), self)"

text \<open>
  \<^verbatim>\<open>
  def __str__(self):  return f"Calculator(value={self.value})"
  def __repr__(self): return f"Calculator(value={self.value})"
  \<close>
  The replacement field \<open>{self.value}\<close> is rendered by Python's own formatting of the
  held object, which is not code of this module: it is the parameter \<open>fmt\<close>, a function
  of the held value in whatever type the values have.
\<close>

definition Calculator_str :: "('a \<Rightarrow> string) \<Rightarrow> 'a store \<Rightarrow> ref \<Rightarrow> string" where
  "Calculator_str fmt s self = ''Calculator(value='' @ fmt (value (s self)) @ '')''"

definition Calculator_repr :: "('a \<Rightarrow> string) \<Rightarrow> 'a store \<Rightarrow> ref \<Rightarrow> string" where
  "Calculator_repr fmt s self = ''Calculator(value='' @ fmt (value (s self)) @ '')''"

subsection \<open>Chained calls\<close>

text \<open>
  The methods are written to be chained, as in the docstring's
  \<^verbatim>\<open>calc.add(5).multiply(2)\<close> and the demonstration's
  \<^verbatim>\<open>calc.add(5).multiply(2).subtract(3)\<close>. A chain is a list of calls; each call is made
  on the reference that the call before it returned, in the store that call left, and a
  raise ends the chain.
\<close>

datatype 'a call = Add 'a | Subtract 'a | Multiply 'a | Divide 'a | Reset

fun invoke ::
  "'a::{zero,plus,minus,times,inverse} store \<Rightarrow> ref \<Rightarrow> 'a call \<Rightarrow> 'a store \<times> (py_error + ref)" where
  "invoke s r (Add n) = apsnd Inr (Calculator_add s r n)"
| "invoke s r (Subtract n) = apsnd Inr (Calculator_subtract s r n)"
| "invoke s r (Multiply n) = apsnd Inr (Calculator_multiply s r n)"
| "invoke s r (Divide n) = Calculator_divide s r n"
| "invoke s r Reset = apsnd Inr (Calculator_reset s r)"

fun chain ::
  "'a::{zero,plus,minus,times,inverse} store \<Rightarrow> ref \<Rightarrow> 'a call list \<Rightarrow> 'a store \<times> (py_error + ref)" where
  "chain s r [] = (s, Inr r)"
| "chain s r (c # cs) =
     (case invoke s r c of
        (s', Inl e) \<Rightarrow> (s', Inl e)
      | (s', Inr r') \<Rightarrow> chain s' r' cs)"

text \<open>
  What the specification says a chain does to the one held value, written on values
  alone: \<open>value += n\<close>, \<open>value -= n\<close>, \<open>value *= n\<close>, \<open>value /= n\<close> unless \<open>n == 0\<close>,
  \<open>value = 0.0\<close>, one after the other. The result is the held value at the end and
  the error, if a call failed; a failed call leaves the value as it found it.
\<close>

fun held_after_call :: "'a::{zero,plus,minus,times,inverse} call \<Rightarrow> 'a \<Rightarrow> py_error + 'a" where
  "held_after_call (Add n) v = Inr (v + n)"
| "held_after_call (Subtract n) v = Inr (v - n)"
| "held_after_call (Multiply n) v = Inr (v * n)"
| "held_after_call (Divide n) v =
     (if n = 0 then Inl (ValueError ''Cannot divide by zero'') else Inr (v / n))"
| "held_after_call Reset v = Inr 0"

fun held_after ::
  "'a::{zero,plus,minus,times,inverse} call list \<Rightarrow> 'a \<Rightarrow> 'a \<times> py_error option" where
  "held_after [] v = (v, None)"
| "held_after (c # cs) v =
     (case held_after_call c v of
        Inl e \<Rightarrow> (v, Some e)
      | Inr v' \<Rightarrow> held_after cs v')"

section \<open>Python's \<open>float\<close>: IEEE 754 binary64\<close>

text \<open>
  A \<open>float\<close> is a finite number, an infinity or a NaN. The finite value \<open>Fin x\<close>
  carries the real number it stands for; the two zeros \<open>0.0\<close> and \<open>-0.0\<close>, which
  \<open>==\<close> does not tell apart, are both \<open>Fin 0\<close>. With that, equality of two values of
  the type is Python's \<open>==\<close>, except that a NaN is \<open>==\<close> to nothing.

  An operation on finite values computes the exact result and rounds it to the nearest
  number with a 53-bit significand, a tie going to the even significand (\<open>rnd\<close>):
  \<^item> \<open>expo x\<close> is the binary exponent of \<open>x\<close>, the largest \<open>e\<close> with \<open>2^e \<le> \<bar>x\<bar>\<close>,
    kept between -1022 (below it the numbers are subnormal and share the exponent
    -1022) and 1024 (from \<open>2^1024\<close> on the result overflows anyway); \<open>find_exp\<close>
    looks for it from 1024 downwards;
  \<^item> the spacing of the numbers around \<open>x\<close> is \<open>2^(expo x - 52)\<close>, and \<open>x\<close> is rounded to
    a multiple of it;
  \<^item> a rounded magnitude of \<open>2^1024\<close> or more is an infinity.
  The floats proper are the values \<open>Fin x\<close> with \<open>rnd x = Fin x\<close>.
\<close>

datatype double = Fin real | PInf | NInf | NaN

primrec find_exp :: "nat \<Rightarrow> real \<Rightarrow> int" where
  "find_exp 0 x = - 1022"
| "find_exp (Suc k) x =
     (if 2 powi (int (Suc k) - 1022) \<le> \<bar>x\<bar> then int (Suc k) - 1022 else find_exp k x)"

definition expo :: "real \<Rightarrow> int" where
  "expo x = find_exp 2046 x"

definition round_half_even :: "real \<Rightarrow> int" where
  "round_half_even x =
     (let f = \<lfloor>x\<rfloor> in
      if x - of_int f < 1 / 2 then f
      else if 1 / 2 < x - of_int f then f + 1
      else if even f then f else f + 1)"

definition rnd :: "real \<Rightarrow> double" where
  "rnd x =
     (let u = 2 powi (expo x - 52);
          y = of_int (round_half_even (x / u)) * u
      in if \<bar>y\<bar> < 2 ^ 1024 then Fin y else if 0 < x then PInf else NInf)"

text \<open>
  The operators of the type. Python's \<open>+\<close>, \<open>-\<close> and \<open>*\<close> on floats never raise.
  Its \<open>/\<close> raises \<open>ZeroDivisionError\<close> on a zero divisor; an operator of HOL cannot
  raise, so \<open>/\<close> gives a NaN there. The module tests the divisor before it divides, so
  it never reaches that case.
\<close>

fun double_add :: "double \<Rightarrow> double \<Rightarrow> double" where
  "double_add (Fin x) (Fin y) = rnd (x + y)"
| "double_add NaN b = NaN"
| "double_add a NaN = NaN"
| "double_add PInf NInf = NaN"
| "double_add NInf PInf = NaN"
| "double_add PInf b = PInf"
| "double_add a PInf = PInf"
| "double_add NInf b = NInf"
| "double_add a NInf = NInf"

fun double_sub :: "double \<Rightarrow> double \<Rightarrow> double" where
  "double_sub (Fin x) (Fin y) = rnd (x - y)"
| "double_sub NaN b = NaN"
| "double_sub a NaN = NaN"
| "double_sub PInf PInf = NaN"
| "double_sub NInf NInf = NaN"
| "double_sub PInf b = PInf"
| "double_sub a PInf = NInf"
| "double_sub NInf b = NInf"
| "double_sub a NInf = PInf"

fun double_mul :: "double \<Rightarrow> double \<Rightarrow> double" where
  "double_mul (Fin x) (Fin y) = rnd (x * y)"
| "double_mul NaN b = NaN"
| "double_mul a NaN = NaN"
| "double_mul PInf (Fin y) = (if y = 0 then NaN else if 0 < y then PInf else NInf)"
| "double_mul NInf (Fin y) = (if y = 0 then NaN else if 0 < y then NInf else PInf)"
| "double_mul (Fin x) PInf = (if x = 0 then NaN else if 0 < x then PInf else NInf)"
| "double_mul (Fin x) NInf = (if x = 0 then NaN else if 0 < x then NInf else PInf)"
| "double_mul PInf PInf = PInf"
| "double_mul PInf NInf = NInf"
| "double_mul NInf PInf = NInf"
| "double_mul NInf NInf = PInf"

fun double_div :: "double \<Rightarrow> double \<Rightarrow> double" where
  "double_div (Fin x) (Fin y) = (if y = 0 then NaN else rnd (x / y))"
| "double_div NaN b = NaN"
| "double_div a NaN = NaN"
| "double_div (Fin x) PInf = Fin 0"
| "double_div (Fin x) NInf = Fin 0"
| "double_div PInf (Fin y) = (if y = 0 then NaN else if 0 < y then PInf else NInf)"
| "double_div NInf (Fin y) = (if y = 0 then NaN else if 0 < y then NInf else PInf)"
| "double_div PInf PInf = NaN"
| "double_div PInf NInf = NaN"
| "double_div NInf PInf = NaN"
| "double_div NInf NInf = NaN"

instantiation double :: "{zero,plus,minus,times,inverse}"
begin

definition zero_double :: double where
  "zero_double = Fin 0"

definition plus_double :: "double \<Rightarrow> double \<Rightarrow> double" where
  "plus_double = double_add"

definition minus_double :: "double \<Rightarrow> double \<Rightarrow> double" where
  "minus_double = double_sub"

definition times_double :: "double \<Rightarrow> double \<Rightarrow> double" where
  "times_double = double_mul"

definition divide_double :: "double \<Rightarrow> double \<Rightarrow> double" where
  "divide_double = double_div"

definition inverse_double :: "double \<Rightarrow> double" where
  "inverse_double = double_div (Fin 1)"

instance ..

end

section \<open>Facts about the float arithmetic\<close>

subsection \<open>The exponent\<close>

lemma find_exp_range: "- 1022 \<le> find_exp k x \<and> find_exp k x \<le> int k - 1022"
  by (induction k) auto

lemma find_exp_lower: "2 powi (- 1022) \<le> \<bar>x\<bar> \<Longrightarrow> 2 powi (find_exp k x) \<le> \<bar>x\<bar>"
  by (induction k) auto

lemma find_exp_upper: "\<bar>x\<bar> < 2 powi (int k - 1021) \<Longrightarrow> \<bar>x\<bar> < 2 powi (find_exp k x + 1)"
proof (induction k)
  case 0
  then show ?case by simp
next
  case (Suc k)
  show ?case
  proof (cases "2 powi (int (Suc k) - 1022) \<le> \<bar>x\<bar>")
    case True
    then show ?thesis using Suc.prems by (simp add: algebra_simps)
  next
    case False
    then have "\<bar>x\<bar> < 2 powi (int k - 1021)" by (simp add: algebra_simps)
    then show ?thesis using Suc.IH False by simp
  qed
qed

lemma powi_two_mono: "a \<le> b \<Longrightarrow> (2::real) powi a \<le> 2 powi b"
  by (rule power_int_increasing) simp_all

lemma powi_two_less_cancel: "(2::real) powi a < 2 powi b \<Longrightarrow> a < b"
  using powi_two_mono [of b a] by (cases "a < b") auto

lemma find_exp_eq:
  assumes "2 powi e \<le> \<bar>x\<bar>" "\<bar>x\<bar> < 2 powi (e + 1)" "- 1022 \<le> e" "e \<le> int k - 1022"
  shows "find_exp k x = e"
proof -
  have lo: "2 powi (- 1022) \<le> \<bar>x\<bar>"
    using powi_two_mono [OF assms(3)] assms(1) by linarith
  have hi: "\<bar>x\<bar> < 2 powi (int k - 1021)"
    using powi_two_mono [of "e + 1" "int k - 1021"] assms(2,4) by linarith
  have "2 powi (find_exp k x) < (2::real) powi (e + 1)"
    using find_exp_lower [OF lo, of k] assms(2) by linarith
  moreover have "2 powi e < (2::real) powi (find_exp k x + 1)"
    using find_exp_upper [OF hi] assms(1) by linarith
  ultimately show ?thesis
    using powi_two_less_cancel [of "find_exp k x" "e + 1"]
      powi_two_less_cancel [of e "find_exp k x + 1"] by linarith
qed

lemma find_exp_subnormal: "\<bar>x\<bar> < 2 powi (- 1021) \<Longrightarrow> find_exp k x = - 1022"
proof (induction k)
  case 0
  then show ?case by simp
next
  case (Suc k)
  have "(2::real) powi (- 1021) \<le> 2 powi (int (Suc k) - 1022)"
    by (rule powi_two_mono) simp
  then show ?case using Suc by simp
qed

lemma expo_eq:
  "2 powi e \<le> \<bar>x\<bar> \<Longrightarrow> \<bar>x\<bar> < 2 powi (e + 1) \<Longrightarrow> - 1022 \<le> e \<Longrightarrow> e \<le> 1024 \<Longrightarrow> expo x = e"
  unfolding expo_def by (rule find_exp_eq) simp_all

lemma expo_subnormal: "\<bar>x\<bar> < 2 powi (- 1021) \<Longrightarrow> expo x = - 1022"
  unfolding expo_def by (rule find_exp_subnormal)

lemma expo_range: "- 1022 \<le> expo x \<and> expo x \<le> 1024"
  using find_exp_range [of 2046 x] by (simp add: expo_def)

lemma expo_lower: "2 powi (- 1022) \<le> \<bar>x\<bar> \<Longrightarrow> 2 powi (expo x) \<le> \<bar>x\<bar>"
  unfolding expo_def by (rule find_exp_lower)

lemma expo_upper: "\<bar>x\<bar> < 2 powi 1025 \<Longrightarrow> \<bar>x\<bar> < 2 powi (expo x + 1)"
  unfolding expo_def using find_exp_upper [of x 2046] by simp

lemma find_exp_top: "2 powi (int k - 1022) \<le> \<bar>x\<bar> \<Longrightarrow> find_exp k x = int k - 1022"
  by (cases k) auto

lemma expo_overflow: "2 ^ 1024 \<le> \<bar>x\<bar> \<Longrightarrow> expo x = 1024"
  unfolding expo_def using find_exp_top [of 2046 x] by simp

subsection \<open>Rounding\<close>

lemma round_half_even_error: "\<bar>of_int (round_half_even z) - z\<bar> \<le> 1 / 2"
  unfolding round_half_even_def Let_def by (auto; linarith)

lemma round_half_even_of_int: "round_half_even (of_int m) = m"
  by (simp add: round_half_even_def)

text \<open>Rounding at a known exponent: this is how \<open>rnd\<close> is evaluated at a given number.\<close>

lemma rnd_at:
  assumes "2 powi e \<le> \<bar>x\<bar>" "\<bar>x\<bar> < 2 powi (e + 1)" "- 1022 \<le> e" "e \<le> 1024"
  shows "rnd x =
     (let u = 2 powi (e - 52);
          y = of_int (round_half_even (x / u)) * u
      in if \<bar>y\<bar> < 2 ^ 1024 then Fin y else if 0 < x then PInf else NInf)"
  using expo_eq [OF assms] by (simp add: rnd_def)

lemma rnd_at_subnormal:
  assumes "\<bar>x\<bar> < 2 powi (- 1021)"
  shows "rnd x =
     (let u = 2 powi (- 1074);
          y = of_int (round_half_even (x / u)) * u
      in if \<bar>y\<bar> < 2 ^ 1024 then Fin y else if 0 < x then PInf else NInf)"
  using expo_subnormal [OF assms] by (simp add: rnd_def)

text \<open>
  In the normal range a result is rounded with a relative error of at most \<open>2^-53\<close>;
  from \<open>2^1024\<close> on it is an infinity; an integer below \<open>2^53\<close> is not rounded at all.
\<close>

lemma rnd_normal:
  assumes lo: "2 powi (- 1022) \<le> \<bar>x\<bar>" and hi: "\<bar>x\<bar> < 2 ^ 1024 - 2 ^ 970"
  shows "\<exists>y. rnd x = Fin y \<and> \<bar>y - x\<bar> \<le> \<bar>x\<bar> / 2 ^ 53"
proof -
  define e where "e = expo x"
  define u :: real where "u = 2 powi (e - 52)"
  define n where "n = round_half_even (x / u)"
  define y where "y = of_int n * u"
  have upos: "0 < u" by (simp add: u_def)
  have elo: "2 powi e \<le> \<bar>x\<bar>" unfolding e_def by (rule expo_lower [OF lo])
  have "(2::real) powi e < 2 powi 1024" using elo hi by simp
  then have e_le: "e \<le> 1023" using powi_two_less_cancel [of e 1024] by simp
  have u_eq: "u = 2 powi e / 2 ^ 52" by (simp add: u_def power_int_diff)
  have "y - x = u * (of_int n - x / u)"
    using upos by (simp add: y_def field_simps)
  then have "\<bar>y - x\<bar> = u * \<bar>of_int n - x / u\<bar>"
    using upos by (simp add: abs_mult)
  also have "\<dots> \<le> u * (1 / 2)"
    using round_half_even_error [of "x / u"] upos unfolding n_def
    by (intro mult_left_mono) simp_all
  finally have err: "\<bar>y - x\<bar> \<le> 2 powi e / 2 ^ 53" by (simp add: u_eq)
  have "(2::real) powi e \<le> 2 powi 1023" by (rule powi_two_mono [OF e_le])
  then have "(2::real) powi e / 2 ^ 53 \<le> 2 ^ 970" by simp
  then have "\<bar>y\<bar> < 2 ^ 1024" using err hi by linarith
  then have "rnd x = Fin y"
    by (simp add: rnd_def Let_def e_def [symmetric] u_def [symmetric] n_def [symmetric]
        y_def [symmetric])
  moreover have "\<bar>y - x\<bar> \<le> \<bar>x\<bar> / 2 ^ 53"
    using err elo by (simp add: field_simps)
  ultimately show ?thesis by blast
qed

lemma rnd_overflow:
  assumes "2 ^ 1024 \<le> \<bar>x\<bar>"
  shows "rnd x = (if 0 < x then PInf else NInf)"
proof -
  define n where "n = round_half_even (x / 2 ^ 972)"
  have "\<bar>of_int n - x / 2 ^ 972\<bar> \<le> 1 / 2"
    unfolding n_def by (rule round_half_even_error)
  moreover have "2 ^ 52 \<le> \<bar>x / 2 ^ 972\<bar>" using assms by (simp add: field_simps)
  ultimately have "2 ^ 52 - 1 / 2 \<le> \<bar>real_of_int n\<bar>" by linarith
  then have "real_of_int (2 ^ 52 - 1) < real_of_int \<bar>n\<bar>" by simp
  then have "2 ^ 52 - 1 < \<bar>n\<bar>" by (simp only: of_int_less_iff)
  then have "2 ^ 52 \<le> \<bar>n\<bar>" by linarith
  then have "real_of_int (2 ^ 52) \<le> real_of_int \<bar>n\<bar>" by (simp only: of_int_le_iff)
  then have "(2::real) ^ 52 \<le> \<bar>of_int n\<bar>" by simp
  then have "2 ^ 52 * (2::real) ^ 972 \<le> \<bar>of_int n\<bar> * 2 ^ 972"
    by (intro mult_right_mono) simp_all
  then have "\<not> \<bar>of_int n * (2::real) ^ 972\<bar> < 2 ^ 1024"
    by (simp add: abs_mult)
  then show ?thesis
    using expo_overflow [OF assms] by (simp add: rnd_def Let_def n_def)
qed

lemma rnd_of_int:
  assumes "\<bar>k\<bar> < 2 ^ 53"
  shows "rnd (of_int k) = Fin (of_int k)"
proof (cases "k = 0")
  case True
  have "expo 0 = - 1022" by (rule expo_subnormal) simp
  then show ?thesis using True by (simp add: rnd_def round_half_even_def)
next
  case False
  define e where "e = expo (of_int k)"
  have one: "1 \<le> \<bar>real_of_int k\<bar>" using False by linarith
  have "(2::real) powi (- 1022) \<le> 2 powi 0" by (rule powi_two_mono) simp
  then have lo: "2 powi (- 1022) \<le> \<bar>real_of_int k\<bar>" using one by simp
  have "2 powi e \<le> \<bar>real_of_int k\<bar>" unfolding e_def by (rule expo_lower [OF lo])
  moreover have k53: "\<bar>real_of_int k\<bar> < 2 ^ 53"
    using of_int_less_iff [of "\<bar>k\<bar>" "2 ^ 53", where ?'a = real] assms by simp
  ultimately have "(2::real) powi e < 2 powi 53" by simp
  then have e_le: "e \<le> 52" using powi_two_less_cancel [of e 53] by simp
  define m where "m = nat (52 - e)"
  have "(2::real) powi (52 - e) = 2 ^ m"
    using e_le unfolding m_def by (intro power_int_nonneg_exp) simp
  then have u: "(2::real) powi (e - 52) = 1 / 2 ^ m"
    using power_int_minus [of "2::real" "52 - e"] by (simp add: inverse_eq_divide)
  have r: "round_half_even (real_of_int k * 2 ^ m) = k * 2 ^ m"
    using round_half_even_of_int [of "k * 2 ^ m"] by simp
  have "(2::real) ^ 53 \<le> 2 ^ 1024" by (rule power_increasing) simp_all
  then have "\<bar>real_of_int k\<bar> < 2 ^ 1024" using k53 by linarith
  then show ?thesis
    by (simp add: rnd_def Let_def e_def [symmetric] u r)
qed

lemma rnd_zero: "rnd 0 = Fin 0"
  using rnd_of_int [of 0] by simp

text \<open>The operators on finite values, and the test for zero.\<close>

lemma fin_ops:
  "Fin x + Fin y = rnd (x + y)" "Fin x - Fin y = rnd (x - y)" "Fin x * Fin y = rnd (x * y)"
  "y \<noteq> 0 \<Longrightarrow> Fin x / Fin y = rnd (x / y)" "(Fin y = 0) = (y = 0)"
  by (simp_all add: plus_double_def minus_double_def times_double_def divide_double_def
      zero_double_def)

text \<open>
  The docstring of \<open>divide\<close> gives \<^verbatim>\<open>divide(7, 3)\<close> as \<^verbatim>\<open>2.3333333333333335\<close>, the float
  \<open>5254199565265579 / 2^51\<close>; the model computes that float, and multiplying it by 3
  gives 7.0 back (the exact product is a tie, rounded to even).
\<close>

lemma docstring_divide_7_3:
  "divide_py (Fin 7) (Fin 3) = Inr (Fin (5254199565265579 / 2 ^ 51))"
proof -
  have "rnd (7 / 3) = Fin (5254199565265579 / 2 ^ 51)"
    by (subst rnd_at [of 1]) (simp_all add: round_half_even_def)
  then show ?thesis by (simp add: divide_py_def fin_ops)
qed

lemma multiply_back_7_3:
  "multiply (Fin (5254199565265579 / 2 ^ 51)) (Fin 3) = Fin 7"
proof -
  have "rnd (5254199565265579 / 2 ^ 51 * 3) = Fin 7"
    by (subst rnd_at [of 2]) (simp_all add: round_half_even_def)
  then show ?thesis by (simp add: multiply_def fin_ops)
qed

section \<open>Properties of the free functions\<close>

text \<open>
  C4. For every pair of inputs the free functions \<open>add\<close>, \<open>subtract\<close> and \<open>multiply\<close>
  return the sum, the difference and the product. They have no error condition: their
  result type has no error branch, every input gives a number.
\<close>

theorem free_functions_arithmetic:
  "add a b = a + b \<and> subtract a b = a - b \<and> multiply a b = a * b"
  by (simp add: add_def subtract_def multiply_def)

text \<open>
  C1. The free function \<open>divide\<close> raises the invalid-argument error
  (\<open>ValueError\<close>) if and only if \<open>b\<close> is exactly zero, and otherwise returns \<open>a / b\<close>:
  a divisor other than zero is accepted however small it is. The function has no side
  effect: it reads no store and returns none.
\<close>

theorem divide_raises_iff_zero:
  "(isl (divide_py a b) \<longleftrightarrow> b = 0) \<and>
   (b = 0 \<longrightarrow> divide_py a b = Inl (ValueError ''Cannot divide by zero'')) \<and>
   (b \<noteq> 0 \<longrightarrow> divide_py a b = Inr (a / b))"
  by (simp add: divide_py_def)

theorem divide_raises_iff_zero_witness:
  "(0::real) = 0 \<and> divide_py (10::real) 0 = Inl (ValueError ''Cannot divide by zero'') \<and>
   (2::real) \<noteq> 0 \<and> divide_py (10::real) 2 = Inr 5 \<and>
   (1 / 1000000 :: real) \<noteq> 0 \<and> divide_py (1::real) (1 / 1000000) = Inr 1000000"
  using divide_raises_iff_zero [of "10::real" 0] divide_raises_iff_zero [of "10::real" 2]
    divide_raises_iff_zero [of "1::real" "1 / 1000000"]
  by simp

text \<open>
  C8. \<open>add\<close> and \<open>multiply\<close> are commutative, and subtracting a number from itself
  gives zero.
\<close>

theorem add_multiply_commute_subtract_self:
  "add (a::real) b = add b a \<and> multiply a b = multiply b a \<and> subtract a a = 0"
  by (simp add: add_def multiply_def subtract_def)

text \<open>The same identities hold on floats, for all finite numbers.\<close>

lemma add_multiply_commute_subtract_self_double:
  "add (Fin x) (Fin y) = add (Fin y) (Fin x) \<and>
   multiply (Fin x) (Fin y) = multiply (Fin y) (Fin x) \<and>
   subtract (Fin x) (Fin x) = 0"
  by (simp add: add_def multiply_def subtract_def fin_ops rnd_zero zero_double_def
      add.commute mult.commute)

text \<open>
  Dividing and multiplying back, on floats. The quotient is rounded and so is the
  product, so the dividend comes back with a relative error of at most \<open>2^-51\<close>,
  provided neither result leaves the normal range.
\<close>

lemma divide_multiply_double:
  fixes a b :: real
  assumes b: "b \<noteq> 0"
    and a_lo: "1 / 2 ^ 1021 \<le> \<bar>a\<bar>" and a_hi: "\<bar>a\<bar> \<le> 2 ^ 1023"
    and q_lo: "1 / 2 ^ 1022 \<le> \<bar>a / b\<bar>" and q_hi: "\<bar>a / b\<bar> \<le> 2 ^ 1023"
  shows "\<exists>q p. divide_py (Fin a) (Fin b) = Inr (Fin q) \<and> multiply (Fin q) (Fin b) = Fin p \<and>
           \<bar>p - a\<bar> \<le> \<bar>a\<bar> / 2 ^ 51"
proof -
  have p1022: "(2::real) powi (- 1022) = 1 / 2 ^ 1022"
    by (simp add: power_int_minus inverse_eq_divide)
  have "\<bar>a / b\<bar> < 2 ^ 1024 - 2 ^ 970" using q_hi by simp
  with q_lo obtain q where q: "rnd (a / b) = Fin q" and qe: "\<bar>q - a / b\<bar> \<le> \<bar>a / b\<bar> / 2 ^ 53"
    using rnd_normal [of "a / b"] unfolding p1022 by blast
  have "q * b - a = (q - a / b) * b" using b by (simp add: field_simps)
  then have "\<bar>q * b - a\<bar> = \<bar>q - a / b\<bar> * \<bar>b\<bar>" by (simp add: abs_mult)
  also have "\<dots> \<le> \<bar>a / b\<bar> / 2 ^ 53 * \<bar>b\<bar>"
    using qe by (intro mult_right_mono) simp_all
  also have "\<dots> = \<bar>a\<bar> / 2 ^ 53" using b by simp
  finally have ze: "\<bar>q * b - a\<bar> \<le> \<bar>a\<bar> / 2 ^ 53" .
  have small: "\<bar>a\<bar> / 2 ^ 53 \<le> \<bar>a\<bar> / 2"
    by (intro divide_left_mono) simp_all
  have half: "\<bar>a\<bar> / 2 \<le> \<bar>q * b\<bar>" using ze small by linarith
  have "(1::real) / 2 ^ 1022 = 1 / 2 ^ 1021 / 2" by simp
  also have "\<dots> \<le> \<bar>a\<bar> / 2" using a_lo by (intro divide_right_mono) simp_all
  finally have z_lo: "1 / 2 ^ 1022 \<le> \<bar>q * b\<bar>" using half by linarith
  have "\<bar>a\<bar> / 2 ^ 53 \<le> 2 ^ 1023 / 2 ^ 53" using a_hi by (intro divide_right_mono) simp_all
  then have "\<bar>a\<bar> / 2 ^ 53 \<le> 2 ^ 970" by simp
  then have "\<bar>q * b\<bar> \<le> 2 ^ 1023 + 2 ^ 970" using ze a_hi by linarith
  then have z_hi: "\<bar>q * b\<bar> < 2 ^ 1024 - 2 ^ 970" by simp
  from z_lo z_hi obtain p where p: "rnd (q * b) = Fin p"
    and pe: "\<bar>p - q * b\<bar> \<le> \<bar>q * b\<bar> / 2 ^ 53"
    using rnd_normal [of "q * b"] unfolding p1022 by blast
  have "\<bar>q * b\<bar> \<le> \<bar>a\<bar> + \<bar>a\<bar> / 2 ^ 53" using ze by linarith
  then have "\<bar>q * b\<bar> / 2 ^ 53 \<le> (\<bar>a\<bar> + \<bar>a\<bar> / 2 ^ 53) / 2 ^ 53"
    by (simp add: divide_right_mono)
  then have "\<bar>p - a\<bar> \<le> \<bar>a\<bar> / 2 ^ 53 + (\<bar>a\<bar> + \<bar>a\<bar> / 2 ^ 53) / 2 ^ 53"
    using pe ze by linarith
  also have "\<dots> \<le> \<bar>a\<bar> / 2 ^ 51" by simp
  finally have "\<bar>p - a\<bar> \<le> \<bar>a\<bar> / 2 ^ 51" .
  moreover have "divide_py (Fin a) (Fin b) = Inr (Fin q)"
    using b q by (simp add: divide_py_def fin_ops)
  moreover have "multiply (Fin q) (Fin b) = Fin p"
    using p by (simp add: multiply_def fin_ops)
  ultimately show ?thesis by blast
qed

lemma divide_multiply_double_zero:
  assumes "b \<noteq> 0"
  shows "divide_py (Fin 0) (Fin b) = Inr (Fin 0) \<and> multiply (Fin 0) (Fin b) = Fin 0"
  using assms by (simp add: divide_py_def multiply_def fin_ops rnd_zero)

text \<open>
  C7, as the code has it. On floats, for a divisor other than zero, if the dividend
  is zero, or if the dividend lies between \<open>2^-1021\<close> and \<open>2^1023\<close> in magnitude and
  the exact quotient between \<open>2^-1022\<close> and \<open>2^1023\<close>, then \<open>divide\<close> returns a finite
  quotient, and multiplying it by the divisor gives a finite number that differs from
  the dividend by at most \<open>2^-51\<close> times the dividend. Over exact arithmetic the
  equality is exact, for every dividend and every divisor other than zero.
\<close>

theorem divide_then_multiply_tolerance:
  fixes a b x y :: real
  shows
  "(b \<noteq> 0 \<and>
    (a = 0 \<or> 1 / 2 ^ 1021 \<le> \<bar>a\<bar> \<and> \<bar>a\<bar> \<le> 2 ^ 1023 \<and>
              1 / 2 ^ 1022 \<le> \<bar>a / b\<bar> \<and> \<bar>a / b\<bar> \<le> 2 ^ 1023) \<longrightarrow>
    (\<exists>q p. divide_py (Fin a) (Fin b) = Inr (Fin q) \<and> multiply (Fin q) (Fin b) = Fin p \<and>
           \<bar>p - a\<bar> \<le> \<bar>a\<bar> / 2 ^ 51)) \<and>
   (y \<noteq> 0 \<longrightarrow> (\<exists>q. divide_py x y = Inr q \<and> multiply q y = x))"
proof (intro conjI impI)
  assume h: "b \<noteq> 0 \<and>
    (a = 0 \<or> 1 / 2 ^ 1021 \<le> \<bar>a\<bar> \<and> \<bar>a\<bar> \<le> 2 ^ 1023 \<and>
              1 / 2 ^ 1022 \<le> \<bar>a / b\<bar> \<and> \<bar>a / b\<bar> \<le> 2 ^ 1023)"
  show "\<exists>q p. divide_py (Fin a) (Fin b) = Inr (Fin q) \<and> multiply (Fin q) (Fin b) = Fin p \<and>
           \<bar>p - a\<bar> \<le> \<bar>a\<bar> / 2 ^ 51"
  proof (cases "a = 0")
    case True
    then show ?thesis using divide_multiply_double_zero [of b] h by auto
  next
    case False
    then show ?thesis using divide_multiply_double [of b a] h by blast
  qed
next
  assume "y \<noteq> 0"
  then show "\<exists>q. divide_py x y = Inr q \<and> multiply q y = x"
    by (simp add: divide_py_def multiply_def)
qed

theorem divide_then_multiply_tolerance_witness:
  "(3::real) \<noteq> 0 \<and> 1 / 2 ^ 1021 \<le> \<bar>7::real\<bar> \<and> \<bar>7::real\<bar> \<le> 2 ^ 1023 \<and>
   1 / 2 ^ 1022 \<le> \<bar>7 / 3 :: real\<bar> \<and> \<bar>7 / 3 :: real\<bar> \<le> 2 ^ 1023 \<and>
   (\<exists>q p. divide_py (Fin 7) (Fin 3) = Inr (Fin q) \<and> multiply (Fin q) (Fin 3) = Fin p \<and>
          \<bar>p - 7\<bar> \<le> 7 / 2 ^ 51) \<and>
   (\<exists>q. divide_py (7::real) 3 = Inr q \<and> multiply q 3 = 7) \<and>
   divide_py (Fin 7) (Fin 3) = Inr (Fin (5254199565265579 / 2 ^ 51)) \<and>
   multiply (Fin (5254199565265579 / 2 ^ 51)) (Fin 3) = Fin 7"
  using divide_then_multiply_tolerance [of 3 7 3 7] docstring_divide_7_3 multiply_back_7_3
  by simp

text \<open>
  The claim C7 without the bounds fails on floats. The quotient of the floats
  \<open>2.0**1000\<close> and \<open>2.0**-100\<close> overflows: \<open>divide\<close> returns \<open>inf\<close>, and \<open>inf\<close> times
  the divisor is \<open>inf\<close>, which no tolerance brings back to the dividend. The quotient of
  the smallest float \<open>5e-324\<close> (that is \<open>2^-1074\<close>) and \<open>2.0\<close> underflows: \<open>divide\<close>
  returns \<open>0.0\<close>, and the product is \<open>0.0\<close>.
\<close>

theorem divide_then_multiply_counterexample:
  "rnd (2 ^ 1000) = Fin (2 ^ 1000) \<and> rnd (1 / 2 ^ 100) = Fin (1 / 2 ^ 100) \<and>
   divide_py (Fin (2 ^ 1000)) (Fin (1 / 2 ^ 100)) = Inr PInf \<and>
   multiply PInf (Fin (1 / 2 ^ 100)) = PInf \<and>
   PInf \<noteq> Fin (2 ^ 1000) \<and>
   rnd (1 / 2 ^ 1074) = Fin (1 / 2 ^ 1074) \<and> rnd 2 = Fin 2 \<and>
   divide_py (Fin (1 / 2 ^ 1074)) (Fin 2) = Inr (Fin 0) \<and>
   multiply (Fin 0) (Fin 2) = Fin 0 \<and>
   Fin 0 \<noteq> Fin (1 / 2 ^ 1074)"
proof -
  have in1: "rnd (2 ^ 1000) = Fin (2 ^ 1000)"
    by (subst rnd_at [of 1000]) (simp_all add: round_half_even_def)
  have in2: "rnd (1 / 2 ^ 100) = Fin (1 / 2 ^ 100)"
    by (subst rnd_at [of "- 100"]) (simp_all add: round_half_even_def)
  have in3: "rnd (1 / 2 ^ 1074) = Fin (1 / 2 ^ 1074)"
    by (subst rnd_at_subnormal) (simp_all add: round_half_even_def)
  have in4: "rnd 2 = Fin 2"
    using rnd_of_int [of 2] by simp
  have over: "rnd (2 ^ 1000 / (1 / 2 ^ 100)) = PInf"
    by (subst rnd_overflow) simp_all
  have under: "rnd (1 / 2 ^ 1074 / 2) = Fin 0"
    by (subst rnd_at_subnormal) (simp_all add: round_half_even_def)
  have d1: "divide_py (Fin (2 ^ 1000)) (Fin (1 / 2 ^ 100)) = Inr PInf"
    using over by (simp add: divide_py_def zero_double_def divide_double_def)
  have m1: "multiply PInf (Fin (1 / 2 ^ 100)) = PInf"
    by (simp add: multiply_def times_double_def)
  have d2: "divide_py (Fin (1 / 2 ^ 1074)) (Fin 2) = Inr (Fin 0)"
    using under by (simp add: divide_py_def zero_double_def divide_double_def)
  have m2: "multiply (Fin 0) (Fin 2) = Fin 0"
    by (simp add: multiply_def times_double_def rnd_zero)
  show ?thesis
    using in1 in2 in3 in4 d1 m1 d2 m2 by simp
qed

section \<open>Properties of the class\<close>

text \<open>A method writes the object at \<open>self\<close> and no other object of the store.\<close>

lemma Calculator_methods_frame:
  assumes "r \<noteq> self"
  shows "fst (Calculator_add s self n) r = s r"
    and "fst (Calculator_subtract s self n) r = s r"
    and "fst (Calculator_multiply s self n) r = s r"
    and "fst (Calculator_divide s self n) r = s r"
    and "fst (Calculator_reset s self) r = s r"
  using assms
  by (simp_all add: Calculator_add_def Calculator_subtract_def Calculator_multiply_def
      Calculator_divide_def Calculator_reset_def)

text \<open>
  C5. The methods \<open>add\<close>, \<open>subtract\<close> and \<open>multiply\<close> always succeed: they have no
  error branch, and for every held value and every argument the held value afterwards
  is \<open>value + n\<close>, \<open>value - n\<close> and \<open>value * n\<close>.
\<close>

theorem Calculator_add_subtract_multiply_update:
  "value (fst (Calculator_add s self n) self) = value (s self) + n \<and>
   value (fst (Calculator_subtract s self n) self) = value (s self) - n \<and>
   value (fst (Calculator_multiply s self n) self) = value (s self) * n"
  by (simp add: Calculator_add_def Calculator_subtract_def Calculator_multiply_def)

text \<open>
  C2. The method \<open>divide\<close> raises the invalid-argument error when \<open>n\<close> is zero, and
  then the store it leaves is the store it was given: the held value is unchanged.
  When \<open>n\<close> is not zero it returns, and the held value \<open>v\<close> has become \<open>v / n\<close>.
\<close>

theorem Calculator_divide_atomic:
  "(n = 0 \<longrightarrow>
      Calculator_divide s self n = (s, Inl (ValueError ''Cannot divide by zero'')) \<and>
      value (fst (Calculator_divide s self n) self) = value (s self)) \<and>
   (n \<noteq> 0 \<longrightarrow>
      snd (Calculator_divide s self n) = Inr self \<and>
      value (fst (Calculator_divide s self n) self) = value (s self) / n)"
  by (simp add: Calculator_divide_def)

theorem Calculator_divide_atomic_witness:
  "(0::real) = 0 \<and>
   snd (Calculator_divide (Calculator_init (\<lambda>r. \<lparr>value = 0\<rparr>) 0 (Some (10::real))) 0 0)
     = Inl (ValueError ''Cannot divide by zero'') \<and>
   value (fst (Calculator_divide (Calculator_init (\<lambda>r. \<lparr>value = 0\<rparr>) 0 (Some (10::real))) 0 0) 0) = 10 \<and>
   (4::real) \<noteq> 0 \<and>
   snd (Calculator_divide (Calculator_init (\<lambda>r. \<lparr>value = 0\<rparr>) 0 (Some (10::real))) 0 4) = Inr 0 \<and>
   value (fst (Calculator_divide (Calculator_init (\<lambda>r. \<lparr>value = 0\<rparr>) 0 (Some (10::real))) 0 4) 0) = 5 / 2"
  using Calculator_divide_atomic [of 0 "Calculator_init (\<lambda>r. \<lparr>value = 0\<rparr>) 0 (Some (10::real))" 0]
    Calculator_divide_atomic [of 4 "Calculator_init (\<lambda>r. \<lparr>value = 0\<rparr>) 0 (Some (10::real))" 0]
  by (simp add: Calculator_init_def)


text \<open>
  A chain of calls, whatever the calls are, leaves at \<open>self\<close> the value that the
  operations give one after the other, leaves every other object as it was, and returns
  \<open>self\<close>; if a call raises, the chain ends with that error and the value reached
  before it.
\<close>

lemma chain_held_after:
  "chain s self cs =
     (s(self := (s self)\<lparr>value := fst (held_after cs (value (s self)))\<rparr>),
      case snd (held_after cs (value (s self))) of None \<Rightarrow> Inr self | Some e \<Rightarrow> Inl e)"
proof (induction cs arbitrary: s)
  case Nil
  show ?case by simp
next
  case (Cons c cs)
  show ?case
    by (cases c)
      (simp_all add: Cons.IH fun_eq_iff Calculator_add_def Calculator_subtract_def
        Calculator_multiply_def Calculator_divide_def Calculator_reset_def)
qed

text \<open>
  On floats, \<open>add(1)\<close> twice adds 2 when neither sum is rounded, that is when
  \<open>value + 1\<close> and \<open>value + 2\<close> are floats themselves. They are when the held value is
  an integer below \<open>2^53 - 2\<close> in magnitude.
\<close>

lemma add_one_twice_exact:
  fixes t :: "double store"
  assumes v: "value (t self) = Fin v"
    and one: "rnd (v + 1) = Fin (v + 1)" and two: "rnd (v + 2) = Fin (v + 2)"
  shows "(let (s1, r1) = Calculator_add t self (Fin 1);
              (s2, r2) = Calculator_add s1 r1 (Fin 1)
          in r2 = self \<and> value (s2 r2) = Fin (v + 2))"
proof -
  have e: "v + 1 + 1 = v + 2" by simp
  have s1: "Fin v + Fin 1 = Fin (v + 1)"
    by (simp only: fin_ops one)
  have s2: "Fin (v + 1) + Fin 1 = Fin (v + 2)"
    by (simp only: fin_ops e two)
  show ?thesis
    by (simp add: Calculator_add_def v s1 s2)
qed

lemma add_one_twice_integer:
  fixes t :: "double store"
  assumes k: "\<bar>k\<bar> < 2 ^ 53 - 2" and v: "value (t self) = Fin (of_int k)"
  shows "(let (s1, r1) = Calculator_add t self (Fin 1);
              (s2, r2) = Calculator_add s1 r1 (Fin 1)
          in r2 = self \<and> value (s2 r2) = Fin (of_int k + 2))"
proof -
  have a1: "real_of_int k + 1 = real_of_int (k + 1)" by simp
  have a2: "real_of_int (k + 1) + 1 = real_of_int (k + 2)" by simp
  have a3: "real_of_int (k + 2) = real_of_int k + 2" by simp
  have r1: "rnd (real_of_int (k + 1)) = Fin (real_of_int (k + 1))"
    by (rule rnd_of_int) (use k in linarith)
  have r2: "rnd (real_of_int (k + 2)) = Fin (real_of_int (k + 2))"
    by (rule rnd_of_int) (use k in linarith)
  have s1: "Fin (real_of_int k) + Fin 1 = Fin (real_of_int (k + 1))"
    by (simp only: fin_ops a1 r1)
  have s2: "Fin (real_of_int (k + 1)) + Fin 1 = Fin (real_of_int (k + 2))"
    by (simp only: fin_ops a2 r2)
  show ?thesis
    by (simp add: Calculator_add_def v s1 s2 a3 del: of_int_add)
qed

text \<open>
  C3, as the code has it. Every operation that succeeds returns the reference it was
  called on, so chained calls work on the one object and each sees what the calls
  before it wrote: a chain leaves at \<open>self\<close> the result of its operations applied in
  order to the held value, each with the rounding of the number type.
  \<open>Calculator(10).add(5).multiply(2)\<close> holds 30.0. Two calls \<open>add(n)\<close> in a row leave
  \<open>(value + n) + n\<close>; with \<open>n = 1\<close> on floats that is \<open>value + 2\<close> whenever \<open>value + 1\<close>
  and \<open>value + 2\<close> are floats, as they are for every integer value below \<open>2^53 - 2\<close> in
  magnitude.
\<close>

theorem chaining_same_instance_cumulative:
  fixes s :: "'a::{zero,plus,minus,times,inverse} store" and t :: "double store"
  shows
  "snd (Calculator_add s self n) = self \<and>
   snd (Calculator_subtract s self n) = self \<and>
   snd (Calculator_multiply s self n) = self \<and>
   snd (Calculator_reset s self) = self \<and>
   (\<forall>r. snd (Calculator_divide s self n) = Inr r \<longrightarrow> r = self) \<and>
   chain s self cs =
     (s(self := (s self)\<lparr>value := fst (held_after cs (value (s self)))\<rparr>),
      case snd (held_after cs (value (s self))) of None \<Rightarrow> Inr self | Some e \<Rightarrow> Inl e) \<and>
   (let s0 = Calculator_init t self (Some (Fin 10));
        (s1, r1) = Calculator_add s0 self (Fin 5);
        (s2, r2) = Calculator_multiply s1 r1 (Fin 2)
    in r2 = self \<and> value (s2 r2) = Fin 30) \<and>
   (let (s1, r1) = Calculator_add s self n;
        (s2, r2) = Calculator_add s1 r1 n
    in r2 = self \<and> value (s2 r2) = (value (s self) + n) + n) \<and>
   (value (t self) = Fin v \<and> rnd (v + 1) = Fin (v + 1) \<and> rnd (v + 2) = Fin (v + 2) \<longrightarrow>
    (let (s1, r1) = Calculator_add t self (Fin 1);
         (s2, r2) = Calculator_add s1 r1 (Fin 1)
     in r2 = self \<and> value (s2 r2) = Fin (v + 2))) \<and>
   (\<bar>k\<bar> < 2 ^ 53 - 2 \<and> value (t self) = Fin (of_int k) \<longrightarrow>
    (let (s1, r1) = Calculator_add t self (Fin 1);
         (s2, r2) = Calculator_add s1 r1 (Fin 1)
     in r2 = self \<and> value (s2 r2) = Fin (of_int k + 2)))"
proof -
  have refs: "snd (Calculator_add s self n) = self \<and>
      snd (Calculator_subtract s self n) = self \<and>
      snd (Calculator_multiply s self n) = self \<and>
      snd (Calculator_reset s self) = self \<and>
      (\<forall>r. snd (Calculator_divide s self n) = Inr r \<longrightarrow> r = self)"
    by (simp add: Calculator_add_def Calculator_subtract_def Calculator_multiply_def
        Calculator_reset_def Calculator_divide_def)
  have thirty: "(let s0 = Calculator_init t self (Some (Fin 10));
        (s1, r1) = Calculator_add s0 self (Fin 5);
        (s2, r2) = Calculator_multiply s1 r1 (Fin 2)
    in r2 = self \<and> value (s2 r2) = Fin 30)"
    using rnd_of_int [of 15] rnd_of_int [of 30]
    by (simp add: Calculator_init_def Calculator_add_def Calculator_multiply_def fin_ops)
  have twice: "(let (s1, r1) = Calculator_add s self n;
        (s2, r2) = Calculator_add s1 r1 n
    in r2 = self \<and> value (s2 r2) = (value (s self) + n) + n)"
    by (simp add: Calculator_add_def)
  show ?thesis
    using refs chain_held_after [of s self cs] thirty twice
      add_one_twice_exact [of t self v] add_one_twice_integer [of k t self]
    by blast
qed

theorem chaining_same_instance_cumulative_witness:
  "snd (Calculator_divide (Calculator_init (\<lambda>r. \<lparr>value = Fin 0\<rparr>) 7 (Some (Fin 10))) 7 (Fin 4)) = Inr 7 \<and>
   value ((Calculator_init (\<lambda>r. \<lparr>value = Fin 0\<rparr>) 7 (Some (Fin 10))) 7) = Fin 10 \<and>
   rnd (10 + 1) = Fin (10 + 1) \<and> rnd (10 + 2) = Fin (10 + 2) \<and>
   \<bar>10::int\<bar> < 2 ^ 53 - 2 \<and>
   (let (s1, r1) = Calculator_add (Calculator_init (\<lambda>r. \<lparr>value = Fin 0\<rparr>) 7 (Some (Fin 10))) 7 (Fin 1);
        (s2, r2) = Calculator_add s1 r1 (Fin 1)
    in r2 = 7 \<and> value (s2 r2) = Fin 12) \<and>
   snd (chain (Calculator_init (\<lambda>r. \<lparr>value = Fin 0\<rparr>) 7 (Some (Fin 10))) 7 [Add (Fin 5), Multiply (Fin 2)]) = Inr 7 \<and>
   value (fst (chain (Calculator_init (\<lambda>r. \<lparr>value = Fin 0\<rparr>) 7 (Some (Fin 10))) 7 [Add (Fin 5), Multiply (Fin 2)]) 7) = Fin 30"
  using chaining_same_instance_cumulative
    [where s = "Calculator_init (\<lambda>r. \<lparr>value = Fin 0\<rparr>) 7 (Some (Fin 10))" and self = 7 and n = "Fin 4" and cs = "[Add (Fin 5), Multiply (Fin 2)]"
      and t = "Calculator_init (\<lambda>r. \<lparr>value = Fin 0\<rparr>) 7 (Some (Fin 10))" and v = 10 and k = 10]
    rnd_of_int [of 4] rnd_of_int [of 11] rnd_of_int [of 12] rnd_of_int [of 15] rnd_of_int [of 30]
  by (simp add: Calculator_init_def Calculator_divide_def zero_double_def fin_ops)

text \<open>
  The claim C3 with \<open>value + 2\<close> for every float fails: a calculator that holds
  \<open>2.0**53\<close> still holds \<open>2.0**53\<close> after \<open>add(1)\<close> twice, since \<open>2^53 + 1\<close> lies
  halfway between two floats and is rounded to the even one, \<open>2^53\<close>.
\<close>

theorem add_one_twice_counterexample:
  "rnd (2 ^ 53) = Fin (2 ^ 53) \<and> rnd 1 = Fin 1 \<and> rnd (2 ^ 53 + 2) = Fin (2 ^ 53 + 2) \<and>
   (let s0 = Calculator_init (\<lambda>r. \<lparr>value = Fin 0\<rparr>) 0 (Some (Fin (2 ^ 53)));
        (s1, r1) = Calculator_add s0 0 (Fin 1);
        (s2, r2) = Calculator_add s1 r1 (Fin 1)
    in value (s2 r2) = Fin (2 ^ 53) \<and> value (s2 r2) \<noteq> Fin (2 ^ 53 + 2))"
proof -
  have in1: "rnd (2 ^ 53) = Fin (2 ^ 53)"
    by (subst rnd_at [of 53]) (simp_all add: round_half_even_def)
  have in2: "rnd 1 = Fin 1"
    using rnd_of_int [of 1] by simp
  have in3: "rnd (2 ^ 53 + 2) = Fin (2 ^ 53 + 2)"
    by (subst rnd_at [of 53]) (simp_all add: round_half_even_def)
  have tie: "rnd (2 ^ 53 + 1) = Fin (2 ^ 53)"
    by (subst rnd_at [of 53]) (simp_all add: round_half_even_def)
  show ?thesis
    using in1 in2 in3 tie
    by (simp add: Calculator_init_def Calculator_add_def plus_double_def)
qed

text \<open>
  C10. Each method agrees with the free function of the same name applied to the held
  value. After \<open>add\<close>, \<open>subtract\<close> and \<open>multiply\<close> the held value is the free function's
  result. For \<open>divide\<close>, the outcome of the method, with the returned reference read in
  the store the method leaves, is the result of the free function: the same error with
  the same message when the free function raises, its quotient as the new held value
  when it returns.
\<close>

theorem methods_agree_with_free_functions:
  "value (fst (Calculator_add s self n) self) = add (value (s self)) n \<and>
   value (fst (Calculator_subtract s self n) self) = subtract (value (s self)) n \<and>
   value (fst (Calculator_multiply s self n) self) = multiply (value (s self)) n \<and>
   map_sum id (\<lambda>r. value (fst (Calculator_divide s self n) r)) (snd (Calculator_divide s self n))
     = divide_py (value (s self)) n \<and>
   (isl (snd (Calculator_divide s self n)) \<longleftrightarrow> isl (divide_py (value (s self)) n))"
  by (simp add: Calculator_add_def Calculator_subtract_def Calculator_multiply_def
      Calculator_divide_def add_def subtract_def multiply_def divide_py_def)

text \<open>
  C9. The string representation is the label of the class, the rendering of the
  current held value between \<open>(value=\<close> and \<open>)\<close>, and nothing else: it is a function of
  the held value alone. \<open>__str__\<close> and \<open>__repr__\<close> give the same string. The label is
  the name of the class, which the specification calls \<open>Accumulator\<close> and the source
  \<open>Calculator\<close>.
\<close>

theorem Calculator_str_form:
  "Calculator_str fmt s self = ''Calculator(value='' @ fmt (value (s self)) @ '')'' \<and>
   Calculator_repr fmt s self = Calculator_str fmt s self \<and>
   take 17 (Calculator_str fmt s self) = ''Calculator(value='' \<and>
   drop 17 (Calculator_str fmt s self) = fmt (value (s self)) @ '')''"
  by (simp add: Calculator_str_def Calculator_repr_def)

end
